theory Spec2Isabelle
  imports Complex_Main
begin

section \<open>Python values\<close>

text \<open>
  The hyperparameters of the component are Python numbers. An \<open>int\<close> is unbounded; a
  \<open>float\<close> is either a finite value, which is a real number, or one of the special
  values \<open>nan\<close>, \<open>+inf\<close>, \<open>-inf\<close> (\<open>PyInf True\<close> is \<open>+inf\<close>). Every finite float is a real,
  so a statement over all \<open>PyFloat v\<close> covers every finite float.
\<close>

datatype pynum = PyInt int | PyFloat real | PyNaN | PyInf bool

text \<open>
  The objects that travel through the dependency dictionary and the metadata mapping.
  \<open>Optimizer n\<close> and \<open>RandomState n\<close> are references to objects of the numerical
  libraries, identified by their address \<open>n\<close>.
\<close>

datatype pyobj =
    PyNone
  | PyBool bool
  | PyNum pynum
  | PyStr string
  | Optimizer nat
  | RandomState nat

datatype error =
    MissingDependencyError
  | KeyError string
  | ValueError
  | OverflowError
  | InvalidRangeError

type_synonym deps = "string \<rightharpoonup> pyobj"

text \<open>
  Python's builtin \<open>int(x)\<close> on a number: the identity on an \<open>int\<close>, truncation towards
  zero on a finite \<open>float\<close>, \<open>ValueError\<close> on \<open>nan\<close> and \<open>OverflowError\<close> on an infinity.
\<close>

fun py_int :: "pynum \<Rightarrow> error + int" where
  "py_int (PyInt n) = Inr n"
| "py_int (PyFloat v) = Inr (if 0 \<le> v then \<lfloor>v\<rfloor> else \<lceil>v\<rceil>)"
| "py_int PyNaN = Inl ValueError"
| "py_int (PyInf s) = Inl OverflowError"

section \<open>The component and the object store\<close>

text \<open>
  The four attributes set by \<open>__init__\<close>. The type \<open>'s\<close> is the type of the schedule
  objects built by the external constructor; \<open>scheduler = None\<close> is Python's \<open>None\<close>.
\<close>

record 's component =
  T_0 :: pynum
  T_mult :: pynum
  random_state :: pyobj
  scheduler :: "'s option"

text \<open>
  Methods receive a reference \<open>self\<close> and mutate the object behind it, so the state is
  an object store from addresses to components. The store is total: an address that was
  never allocated holds a component nobody refers to. \<open>io_log\<close> is the sequence of file
  operations performed so far.
\<close>

datatype io_event = FileRead string | FileWrite string string

record 's world =
  objs :: "nat \<Rightarrow> 's component"
  io_log :: "io_event list"

text \<open>
  \<open>__init__\<close>: stores the three arguments verbatim and sets \<open>scheduler\<close> to \<open>None\<close>, on the
  object at address \<open>self\<close>. The call \<open>super().__init__()\<close> sets up the inherited part of
  the object, which \<open>check_requirements\<close> reads and which is no field of the record.
\<close>

definition init :: "pynum \<Rightarrow> pynum \<Rightarrow> pyobj \<Rightarrow> nat \<Rightarrow> 's world \<Rightarrow> 's world" where
  "init t0 tmult rs self w =
     w\<lparr>objs := (objs w)(self :=
        \<lparr>T_0 = t0, T_mult = tmult, random_state = rs, scheduler = None\<rparr>)\<rparr>"

text \<open>
  \<open>fit\<close>. Two callees are defined outside this class and are taken as parameters, each
  a function of its arguments:
  \<^item> \<open>check\<close> is the inherited \<open>self.check_requirements(X, y)\<close>, which either raises or
    returns;
  \<^item> \<open>ctor\<close> is the constructor \<open>torch.optim.lr_scheduler.CosineAnnealingWarmRestarts\<close>,
    called with the keyword arguments \<open>optimizer\<close>, \<open>T_0\<close>, \<open>T_mult\<close> in this order; it
    either raises or returns the new schedule object.

  The arguments of the constructor call are evaluated left to right: the lookup
  \<open>X['optimizer']\<close> (a \<open>KeyError\<close> when the key is absent), then \<open>int(self.T_0)\<close>, then
  \<open>int(self.T_mult)\<close>. The assignment to \<open>self.scheduler\<close> happens only after the
  constructor has returned. The result is the raised error or the returned reference.
\<close>

definition fit ::
  "(deps \<Rightarrow> pyobj \<Rightarrow> error + unit) \<Rightarrow> (pyobj \<Rightarrow> int \<Rightarrow> int \<Rightarrow> error + 's) \<Rightarrow>
   nat \<Rightarrow> deps \<Rightarrow> pyobj \<Rightarrow> 's world \<Rightarrow> (error + nat) \<times> 's world" where
  "fit check ctor self X y w =
     (case check X y of
        Inl e \<Rightarrow> (Inl e, w)
      | Inr u \<Rightarrow>
          (case X ''optimizer'' of
             None \<Rightarrow> (Inl (KeyError ''optimizer''), w)
           | Some opt \<Rightarrow>
               (case py_int (T_0 (objs w self)) of
                  Inl e \<Rightarrow> (Inl e, w)
                | Inr a \<Rightarrow>
                    (case py_int (T_mult (objs w self)) of
                       Inl e \<Rightarrow> (Inl e, w)
                     | Inr b \<Rightarrow>
                         (case ctor opt a b of
                            Inl e \<Rightarrow> (Inl e, w)
                          | Inr s \<Rightarrow>
                              (Inr self,
                               w\<lparr>objs := (objs w)(self :=
                                  (objs w self)\<lparr>scheduler := Some s\<rparr>)\<rparr>))))))"

text \<open>
  Modelled from the spec: \<open>check_requirements\<close>, which the class inherits from the
  scheduler base class \<open>BaseLRComponent\<close> of \<open>base_scheduler.py\<close>, is missing. The spec,
  section 4.1: fit "fails with a MissingDependencyError (or equivalent) if dependencies
  lacks a usable "optimizer" entry", and \<open>y\<close> is ignored. An entry is usable when it is
  an optimizer object.
\<close>

fun usable :: "pyobj \<Rightarrow> bool" where
  "usable (Optimizer n) = True"
| "usable v = False"

definition has_usable_optimizer :: "deps \<Rightarrow> bool" where
  "has_usable_optimizer X = (case X ''optimizer'' of None \<Rightarrow> False | Some v \<Rightarrow> usable v)"

definition check_requirements :: "deps \<Rightarrow> pyobj \<Rightarrow> error + unit" where
  "check_requirements X y =
     (if has_usable_optimizer X then Inr () else Inl MissingDependencyError)"

text \<open>
  One instance of the constructor parameter: a schedule object that records the three
  keyword arguments it was built from.
\<close>

record schedule =
  sched_optimizer :: pyobj
  sched_T_0 :: int
  sched_T_mult :: int

definition new_schedule :: "pyobj \<Rightarrow> int \<Rightarrow> int \<Rightarrow> error + schedule" where
  "new_schedule opt a b = Inr \<lparr>sched_optimizer = opt, sched_T_0 = a, sched_T_mult = b\<rparr>"

text \<open>
  A second instance of the constructor parameter, with the argument check that the
  numerical library documents for this constructor: it raises \<open>ValueError\<close> unless \<open>T_0\<close>
  is a positive integer, and unless \<open>T_mult\<close> is an integer of at least 1; otherwise the
  schedule records its arguments.
\<close>

definition checked_schedule :: "pyobj \<Rightarrow> int \<Rightarrow> int \<Rightarrow> error + schedule" where
  "checked_schedule opt a b =
     (if a \<le> 0 then Inl ValueError
      else if b < 1 then Inl ValueError
      else Inr \<lparr>sched_optimizer = opt, sched_T_0 = a, sched_T_mult = b\<rparr>)"

text \<open>
  A hyperparameter value that is a number of at least 1: an \<open>int\<close> of at least 1 or a
  finite \<open>float\<close> of at least 1.0.
\<close>

fun at_least_one :: "pynum \<Rightarrow> bool" where
  "at_least_one (PyInt n) = (1 \<le> n)"
| "at_least_one (PyFloat v) = (1 \<le> v)"
| "at_least_one PyNaN = False"
| "at_least_one (PyInf s) = False"

text \<open>A store in which nothing has been constructed yet and no file has been touched.\<close>

definition blank :: "schedule world" where
  "blank = \<lparr>objs = (\<lambda>r. \<lparr>T_0 = PyInt 0, T_mult = PyInt 0, random_state = PyNone,
                           scheduler = None\<rparr>),
            io_log = []\<rparr>"

text \<open>
  A history of an instance: the calls \<open>fit(X, y)\<close> made on \<open>self\<close> one after the other by a
  caller that catches each exception, with the outcome of each call.
\<close>

fun fits ::
  "(deps \<Rightarrow> pyobj \<Rightarrow> error + unit) \<Rightarrow> (pyobj \<Rightarrow> int \<Rightarrow> int \<Rightarrow> error + 's) \<Rightarrow>
   nat \<Rightarrow> (deps \<times> pyobj) list \<Rightarrow> 's world \<Rightarrow> (error + nat) list \<times> 's world" where
  "fits check ctor self [] w = ([], w)"
| "fits check ctor self ((X, y) # calls) w =
     (case fit check ctor self X y w of
        (r, w1) \<Rightarrow>
          (case fits check ctor self calls w1 of
             (rs, w2) \<Rightarrow> (r # rs, w2)))"

section \<open>The static methods\<close>

text \<open>
  \<open>get_properties\<close> returns a dictionary literal. It is given the store as well, so that
  what it does to the store, and what it reads from it, can be stated.
\<close>

definition get_properties :: "deps option \<Rightarrow> 's world \<Rightarrow> (error + deps) \<times> 's world" where
  "get_properties dataset_properties w =
     (Inr [''shortname'' \<mapsto> PyStr ''CosineAnnealingWarmRestarts'',
           ''name'' \<mapsto> PyStr ''Cosine Annealing WarmRestarts'',
           ''cyclic'' \<mapsto> PyBool True],
      w)"

text \<open>
  The search space: a hyperparameter is an integer or a real range with a name, a lower
  bound, an upper bound and a default; a configuration space holds hyperparameters in
  the order they were added.
\<close>

datatype hyperparameter =
    UniformInteger string int int int
  | UniformFloat string real real real

type_synonym configuration_space = "hyperparameter list"

text \<open>
  Modelled from the spec: the constructors \<open>UniformIntegerHyperparameter\<close> and
  \<open>UniformFloatHyperparameter\<close> and the container \<open>ConfigurationSpace\<close> of the
  search-space library are missing. The spec, sections 4.1 and 7: construction fails
  with an InvalidRangeError "if low > high or default outside [low, high], mirroring the
  contract of the external search-space library it delegates to", and has "no error
  conditions under normal numeric ranges". The container keeps the hyperparameters in
  the order they were added.
\<close>

definition UniformIntegerHyperparameter ::
  "string \<Rightarrow> int \<Rightarrow> int \<Rightarrow> int \<Rightarrow> error + hyperparameter" where
  "UniformIntegerHyperparameter name lower upper default_value =
     (if upper < lower \<or> default_value < lower \<or> upper < default_value
      then Inl InvalidRangeError
      else Inr (UniformInteger name lower upper default_value))"

definition UniformFloatHyperparameter ::
  "string \<Rightarrow> real \<Rightarrow> real \<Rightarrow> real \<Rightarrow> error + hyperparameter" where
  "UniformFloatHyperparameter name lower upper default_value =
     (if upper < lower \<or> default_value < lower \<or> upper < default_value
      then Inl InvalidRangeError
      else Inr (UniformFloat name lower upper default_value))"

definition ConfigurationSpace :: configuration_space where
  "ConfigurationSpace = []"

definition add_hyperparameters ::
  "configuration_space \<Rightarrow> hyperparameter list \<Rightarrow> configuration_space" where
  "add_hyperparameters cs hps = cs @ hps"

text \<open>
  \<open>get_hyperparameter_search_space\<close>. An argument left out is \<open>None\<close> and takes the
  default of the signature. The integer hyperparameter is built first, then the real
  one, then the container; the first constructor that raises ends the call.
\<close>

definition default_T_0 :: "(int \<times> int) \<times> int" where
  "default_T_0 = ((1, 20), 1)"

definition default_T_mult :: "(real \<times> real) \<times> real" where
  "default_T_mult = ((1, 2), 1)"

definition get_hyperparameter_search_space ::
  "deps option \<Rightarrow> ((int \<times> int) \<times> int) option \<Rightarrow> ((real \<times> real) \<times> real) option \<Rightarrow>
   error + configuration_space" where
  "get_hyperparameter_search_space dataset_properties T_0_arg T_mult_arg =
     (let t0 = (case T_0_arg of None \<Rightarrow> default_T_0 | Some a \<Rightarrow> a);
          tm = (case T_mult_arg of None \<Rightarrow> default_T_mult | Some a \<Rightarrow> a)
      in case UniformIntegerHyperparameter ''T_0'' (fst (fst t0)) (snd (fst t0)) (snd t0) of
           Inl e \<Rightarrow> Inl e
         | Inr h0 \<Rightarrow>
             (case UniformFloatHyperparameter ''T_mult'' (fst (fst tm)) (snd (fst tm)) (snd tm) of
                Inl e \<Rightarrow> Inl e
              | Inr hm \<Rightarrow> Inr (add_hyperparameters ConfigurationSpace [h0, hm])))"

section \<open>What fit passes to the schedule constructor\<close>

lemma fit_success_cases:
  assumes "fit check ctor self X y w = (Inr r, w')"
  shows "\<exists>opt a b s. check X y = Inr () \<and> X ''optimizer'' = Some opt \<and>
           py_int (T_0 (objs w self)) = Inr a \<and> py_int (T_mult (objs w self)) = Inr b \<and>
           ctor opt a b = Inr s \<and> r = self \<and>
           w' = w\<lparr>objs := (objs w)(self := (objs w self)\<lparr>scheduler := Some s\<rparr>)\<rparr>"
  using assms unfolding fit_def
  by (auto split: sum.splits option.splits)

lemma fit_result_cases:
  "(\<exists>e. fit check ctor self X y w = (Inl e, w)) \<or>
   (\<exists>s. fit check ctor self X y w =
      (Inr self, w\<lparr>objs := (objs w)(self := (objs w self)\<lparr>scheduler := Some s\<rparr>)\<rparr>))"
  unfolding fit_def by (auto split: sum.splits option.splits)

lemma fit_check_fails:
  "check X y = Inl e \<Longrightarrow> fit check ctor self X y w = (Inl e, w)"
  by (simp add: fit_def)

text \<open>
  C1: whenever \<open>fit\<close> succeeds, the schedule stored in \<open>scheduler\<close> is the one the
  constructor returned for the optimizer found under \<open>"optimizer"\<close>, the restart length
  \<open>int(T_0)\<close> and the growth factor \<open>int(T_mult)\<close>: both hyperparameters are coerced to
  integers before they reach the constructor.
\<close>

theorem fit_passes_coerced_hyperparameters:
  assumes "fit check ctor self X y w = (Inr r, w')"
  shows "\<exists>opt a b s. X ''optimizer'' = Some opt \<and>
           py_int (T_0 (objs w self)) = Inr a \<and>
           py_int (T_mult (objs w self)) = Inr b \<and>
           ctor opt a b = Inr s \<and>
           scheduler (objs w' self) = Some s"
proof -
  from fit_success_cases [OF assms] obtain opt a b s where
    h: "X ''optimizer'' = Some opt" "py_int (T_0 (objs w self)) = Inr a"
       "py_int (T_mult (objs w self)) = Inr b" "ctor opt a b = Inr s"
       "w' = w\<lparr>objs := (objs w)(self := (objs w self)\<lparr>scheduler := Some s\<rparr>)\<rparr>"
    by blast
  from h(5) have "scheduler (objs w' self) = Some s" by simp
  with h(1-4) show ?thesis by blast
qed

theorem fit_passes_coerced_hyperparameters_witness:
  "fst (fit check_requirements new_schedule 0 [''optimizer'' \<mapsto> Optimizer 7] PyNone
          (init (PyInt 5) (PyFloat 2) PyNone 0 blank)) = Inr 0 \<and>
   (\<exists>opt a b s. [''optimizer'' \<mapsto> Optimizer 7] ''optimizer'' = Some opt \<and>
      py_int (PyInt 5) = Inr a \<and> py_int (PyFloat 2) = Inr b \<and>
      new_schedule opt a b = Inr s \<and>
      scheduler (objs (snd (fit check_requirements new_schedule 0
          [''optimizer'' \<mapsto> Optimizer 7] PyNone
          (init (PyInt 5) (PyFloat 2) PyNone 0 blank))) 0) = Some s) \<and>
   scheduler (objs (snd (fit check_requirements new_schedule 0
          [''optimizer'' \<mapsto> Optimizer 7] PyNone
          (init (PyInt 5) (PyFloat 2) PyNone 0 blank))) 0)
     = Some \<lparr>sched_optimizer = Optimizer 7, sched_T_0 = 5, sched_T_mult = 2\<rparr>"
proof -
  let ?w = "init (PyInt 5) (PyFloat 2) PyNone 0 blank"
  let ?X = "[''optimizer'' \<mapsto> Optimizer 7]"
  let ?run = "fit check_requirements new_schedule 0 ?X PyNone ?w"
  have res: "fst ?run = Inr 0"
    by (simp add: fit_def check_requirements_def has_usable_optimizer_def new_schedule_def init_def blank_def)
  have sch: "scheduler (objs (snd ?run) 0)
      = Some \<lparr>sched_optimizer = Optimizer 7, sched_T_0 = 5, sched_T_mult = 2\<rparr>"
    by (simp add: fit_def check_requirements_def has_usable_optimizer_def new_schedule_def init_def blank_def)
  have run: "?run = (Inr 0, snd ?run)"
    using res by (simp add: prod_eq_iff)
  have ex: "\<exists>opt a b s. ?X ''optimizer'' = Some opt \<and>
      py_int (PyInt 5) = Inr a \<and> py_int (PyFloat 2) = Inr b \<and>
      new_schedule opt a b = Inr s \<and> scheduler (objs (snd ?run) 0) = Some s"
    using fit_passes_coerced_hyperparameters [OF run] by (simp add: init_def)
  from res ex sch show ?thesis by blast
qed

section \<open>Failure of fit\<close>

text \<open>
  C2: with the requirement check of the spec, a dependency mapping without a usable
  \<open>"optimizer"\<close> entry makes \<open>fit\<close> raise \<open>MissingDependencyError\<close> and leaves the whole
  store, and so the \<open>scheduler\<close> field, as it was. Whatever the mapping, \<open>fit\<close> either
  raises and leaves the store as it was, or returns with \<open>scheduler\<close> set.
\<close>

theorem fit_without_optimizer_fails_atomically:
  "(\<not> has_usable_optimizer X \<longrightarrow>
      fit check_requirements ctor self X y w = (Inl MissingDependencyError, w)) \<and>
   (case fit check_requirements ctor self X y w of
      (Inl e, w') \<Rightarrow> w' = w
    | (Inr r, w') \<Rightarrow> scheduler (objs w' self) \<noteq> None)"
proof
  show "\<not> has_usable_optimizer X \<longrightarrow>
      fit check_requirements ctor self X y w = (Inl MissingDependencyError, w)"
    by (simp add: fit_check_fails check_requirements_def)
next
  from fit_result_cases [of check_requirements ctor self X y w]
  show "case fit check_requirements ctor self X y w of
      (Inl e, w') \<Rightarrow> w' = w
    | (Inr r, w') \<Rightarrow> scheduler (objs w' self) \<noteq> None"
    by auto
qed

text \<open>
  The witness: a misspelt key on a fresh instance, and a string under \<open>"optimizer"\<close> on
  an instance that was fit before, whose schedule stays.
\<close>

theorem fit_without_optimizer_fails_atomically_witness:
  "\<not> has_usable_optimizer [''optimiser'' \<mapsto> Optimizer 7] \<and>
   fit check_requirements new_schedule 0 [''optimiser'' \<mapsto> Optimizer 7] PyNone
       (init (PyInt 5) (PyFloat 2) PyNone 0 blank)
     = (Inl MissingDependencyError, init (PyInt 5) (PyFloat 2) PyNone 0 blank) \<and>
   \<not> has_usable_optimizer [''optimizer'' \<mapsto> PyStr ''sgd''] \<and>
   fit check_requirements new_schedule 0 [''optimizer'' \<mapsto> PyStr ''sgd''] PyNone
       (snd (fit check_requirements new_schedule 0 [''optimizer'' \<mapsto> Optimizer 7] PyNone
          (init (PyInt 5) (PyFloat 2) PyNone 0 blank)))
     = (Inl MissingDependencyError,
        snd (fit check_requirements new_schedule 0 [''optimizer'' \<mapsto> Optimizer 7] PyNone
          (init (PyInt 5) (PyFloat 2) PyNone 0 blank))) \<and>
   scheduler (objs (snd (fit check_requirements new_schedule 0
          [''optimizer'' \<mapsto> Optimizer 7] PyNone
          (init (PyInt 5) (PyFloat 2) PyNone 0 blank))) 0)
     = Some \<lparr>sched_optimizer = Optimizer 7, sched_T_0 = 5, sched_T_mult = 2\<rparr>"
proof -
  let ?w = "init (PyInt 5) (PyFloat 2) PyNone 0 blank"
  let ?w1 = "snd (fit check_requirements new_schedule 0 [''optimizer'' \<mapsto> Optimizer 7]
      PyNone ?w)"
  have a: "\<not> has_usable_optimizer [''optimiser'' \<mapsto> Optimizer 7]"
    by (simp add: has_usable_optimizer_def)
  have b: "\<not> has_usable_optimizer [''optimizer'' \<mapsto> PyStr ''sgd'']"
    by (simp add: has_usable_optimizer_def)
  have sch: "scheduler (objs ?w1 0)
      = Some \<lparr>sched_optimizer = Optimizer 7, sched_T_0 = 5, sched_T_mult = 2\<rparr>"
    by (simp add: fit_def check_requirements_def has_usable_optimizer_def new_schedule_def
        init_def blank_def)
  from a b sch
    fit_without_optimizer_fails_atomically
      [of "[''optimiser'' \<mapsto> Optimizer 7]" new_schedule 0 PyNone ?w]
    fit_without_optimizer_fails_atomically
      [of "[''optimizer'' \<mapsto> PyStr ''sgd'']" new_schedule 0 PyNone ?w1]
  show ?thesis by blast
qed

section \<open>Success of fit\<close>

lemma py_int_at_least_one:
  "at_least_one x \<Longrightarrow> \<exists>a. py_int x = Inr a \<and> 1 \<le> a"
  by (cases x) (simp_all add: le_floor_iff)

text \<open>
  C4, as amended: let the schedule constructor accept every usable optimizer together
  with a restart length of at least 1 and a growth factor of at least 1. Then for every
  instance whose \<open>T_0\<close> and \<open>T_mult\<close> are numbers of at least 1 and every mapping that
  holds a usable optimizer, \<open>fit\<close> with the requirement check of the spec succeeds: it
  returns the reference \<open>self\<close> it was called on and leaves \<open>scheduler\<close> holding the
  schedule built from the optimizer, \<open>int(T_0)\<close> and \<open>int(T_mult)\<close>, hence not \<open>None\<close>.
\<close>

theorem fit_succeeds_on_valid_inputs:
  assumes contract:
      "\<And>opt a b. usable opt \<Longrightarrow> 1 \<le> a \<Longrightarrow> 1 \<le> b \<Longrightarrow> \<exists>s. ctor opt a b = Inr s"
    and "X ''optimizer'' = Some opt" and "usable opt"
    and "at_least_one (T_0 (objs w self))"
    and "at_least_one (T_mult (objs w self))"
  shows "\<exists>a b s. py_int (T_0 (objs w self)) = Inr a \<and>
           py_int (T_mult (objs w self)) = Inr b \<and>
           ctor opt a b = Inr s \<and>
           fit check_requirements ctor self X y w =
             (Inr self, w\<lparr>objs := (objs w)(self := (objs w self)\<lparr>scheduler := Some s\<rparr>)\<rparr>) \<and>
           scheduler (objs (snd (fit check_requirements ctor self X y w)) self) \<noteq> None"
proof -
  from py_int_at_least_one [OF assms(4)] obtain a where
    a: "py_int (T_0 (objs w self)) = Inr a" "1 \<le> a" by blast
  from py_int_at_least_one [OF assms(5)] obtain b where
    b: "py_int (T_mult (objs w self)) = Inr b" "1 \<le> b" by blast
  from contract [OF assms(3) a(2) b(2)] obtain s where
    s: "ctor opt a b = Inr s" by blast
  have run: "fit check_requirements ctor self X y w =
      (Inr self, w\<lparr>objs := (objs w)(self := (objs w self)\<lparr>scheduler := Some s\<rparr>)\<rparr>)"
    using assms(2,3) a(1) b(1) s
    by (simp add: fit_def check_requirements_def has_usable_optimizer_def)
  then have "scheduler (objs (snd (fit check_requirements ctor self X y w)) self) \<noteq> None"
    by simp
  with a(1) b(1) s run show ?thesis by blast
qed

text \<open>
  The witness: the checking constructor meets the contract, and an instance with
  \<open>T_0 = 5\<close> and \<open>T_mult = 2.0\<close> is fit at address 3.
\<close>

theorem fit_succeeds_on_valid_inputs_witness:
  "at_least_one (PyInt 5) \<and> at_least_one (PyFloat 2) \<and> usable (Optimizer 7) \<and>
   fit check_requirements checked_schedule 3 [''optimizer'' \<mapsto> Optimizer 7] PyNone
       (init (PyInt 5) (PyFloat 2) PyNone 3 blank)
     = (Inr 3, (init (PyInt 5) (PyFloat 2) PyNone 3 blank)
          \<lparr>objs := (objs (init (PyInt 5) (PyFloat 2) PyNone 3 blank))
             (3 := (objs (init (PyInt 5) (PyFloat 2) PyNone 3 blank) 3)
                \<lparr>scheduler := Some \<lparr>sched_optimizer = Optimizer 7, sched_T_0 = 5,
                                     sched_T_mult = 2\<rparr>\<rparr>)\<rparr>) \<and>
   scheduler (objs (snd (fit check_requirements checked_schedule 3
       [''optimizer'' \<mapsto> Optimizer 7] PyNone
       (init (PyInt 5) (PyFloat 2) PyNone 3 blank))) 3) \<noteq> None"
proof -
  let ?w = "init (PyInt 5) (PyFloat 2) PyNone 3 blank"
  let ?X = "[''optimizer'' \<mapsto> Optimizer 7]"
  have contract: "\<exists>s. checked_schedule opt a b = Inr s"
    if "usable opt" and "1 \<le> a" and "1 \<le> b" for opt a b
    using that by (simp add: checked_schedule_def)
  have h1: "?X ''optimizer'' = Some (Optimizer 7)" by simp
  have h2: "usable (Optimizer 7)" by simp
  have h3: "at_least_one (T_0 (objs ?w 3))" by (simp add: init_def)
  have h4: "at_least_one (T_mult (objs ?w 3))" by (simp add: init_def)
  from fit_succeeds_on_valid_inputs
    [where ctor = checked_schedule and X = ?X and opt = "Optimizer 7" and w = ?w
       and self = 3 and y = PyNone, OF contract h1 h2 h3 h4]
  obtain a b s where
    r: "py_int (T_0 (objs ?w 3)) = Inr a" "py_int (T_mult (objs ?w 3)) = Inr b"
       "checked_schedule (Optimizer 7) a b = Inr s"
       "fit check_requirements checked_schedule 3 ?X PyNone ?w =
          (Inr 3, ?w\<lparr>objs := (objs ?w)(3 := (objs ?w 3)\<lparr>scheduler := Some s\<rparr>)\<rparr>)"
       "scheduler (objs (snd (fit check_requirements checked_schedule 3 ?X PyNone ?w)) 3)
          \<noteq> None"
    by blast
  from r(1,2) have ab: "a = 5" "b = 2" by (simp_all add: init_def)
  from r(3) ab have s: "s = \<lparr>sched_optimizer = Optimizer 7, sched_T_0 = 5, sched_T_mult = 2\<rparr>"
    by (simp add: checked_schedule_def)
  have v: "at_least_one (PyInt 5)" "at_least_one (PyFloat 2)" by simp_all
  from v h2 r(4,5) s show ?thesis by blast
qed

text \<open>
  The claim as it stands, for every valid pair, fails at the pair \<open>T_0 = 5\<close>,
  \<open>T_mult = 0.5\<close>, a positive integer and a positive real: \<open>int(0.5)\<close> is 0, the checking
  constructor refuses a growth factor of 0, and \<open>fit\<close> raises with \<open>scheduler\<close> still
  \<open>None\<close>, although the mapping holds a usable optimizer.
\<close>

theorem fit_fails_at_half_counterexample:
  "usable (Optimizer 7) \<and> (0::int) < 5 \<and> (0::real) < 1 / 2 \<and>
   py_int (PyFloat (1 / 2)) = Inr 0 \<and>
   fit check_requirements checked_schedule 0 [''optimizer'' \<mapsto> Optimizer 7] PyNone
       (init (PyInt 5) (PyFloat (1 / 2)) PyNone 0 blank)
     = (Inl ValueError, init (PyInt 5) (PyFloat (1 / 2)) PyNone 0 blank) \<and>
   scheduler (objs (snd (fit check_requirements checked_schedule 0
       [''optimizer'' \<mapsto> Optimizer 7] PyNone
       (init (PyInt 5) (PyFloat (1 / 2)) PyNone 0 blank))) 0) = None"
  by (simp add: fit_def check_requirements_def has_usable_optimizer_def
      checked_schedule_def init_def blank_def)

section \<open>The scheduler field over the life of an instance\<close>

lemma fit_scheduler_step:
  assumes "fit check ctor self X y w = (r, w')"
  shows "(scheduler (objs w' self) \<noteq> None) = (scheduler (objs w self) \<noteq> None \<or> \<not> isl r)"
  using assms fit_result_cases [of check ctor self X y w] by auto

lemma fits_scheduler_iff:
  "fits check ctor self calls w = (outs, w') \<Longrightarrow>
   (scheduler (objs w' self) \<noteq> None) =
     (scheduler (objs w self) \<noteq> None \<or> (\<exists>r\<in>set outs. \<not> isl r))"
proof (induction calls arbitrary: w outs w')
  case Nil
  then show ?case by simp
next
  case (Cons c calls)
  obtain X y where c: "c = (X, y)" by (cases c)
  obtain r w1 where s1: "fit check ctor self X y w = (r, w1)"
    by (cases "fit check ctor self X y w")
  obtain rs w2 where s2: "fits check ctor self calls w1 = (rs, w2)"
    by (cases "fits check ctor self calls w1")
  from Cons.prems c s1 s2 have eqs: "outs = r # rs" "w' = w2" by simp_all
  from Cons.IH [OF s2] fit_scheduler_step [OF s1] eqs
  show ?case by auto
qed

text \<open>
  C3: right after construction \<open>scheduler\<close> is \<open>None\<close>; after any sequence of \<open>fit\<close> calls
  on the constructed instance, \<open>scheduler\<close> is not \<open>None\<close> exactly when one of the calls
  returned; and a \<open>fit\<close> that returns leaves in \<open>scheduler\<close> the one schedule it has just
  built, whatever the field held before.
\<close>

theorem scheduler_set_iff_fit_succeeded:
  "scheduler (objs (init tz tm rs self w) self) = None \<and>
   (fits check ctor self calls (init tz tm rs self w) = (outs, w') \<longrightarrow>
      (scheduler (objs w' self) \<noteq> None) = (\<exists>r\<in>set outs. \<not> isl r)) \<and>
   (fit check ctor self X y v = (Inr r, v') \<longrightarrow>
      (\<exists>opt a b s. X ''optimizer'' = Some opt \<and> ctor opt a b = Inr s \<and>
         scheduler (objs v' self) = Some s))"
proof (intro conjI impI)
  show n: "scheduler (objs (init tz tm rs self w) self) = None"
    by (simp add: init_def)
  show "(scheduler (objs w' self) \<noteq> None) = (\<exists>r\<in>set outs. \<not> isl r)"
    if "fits check ctor self calls (init tz tm rs self w) = (outs, w')"
    using fits_scheduler_iff [OF that] n by simp
  show "\<exists>opt a b s. X ''optimizer'' = Some opt \<and> ctor opt a b = Inr s \<and>
         scheduler (objs v' self) = Some s"
    if "fit check ctor self X y v = (Inr r, v')"
  proof -
    from fit_success_cases [OF that] obtain opt a b s where
      h: "X ''optimizer'' = Some opt" "ctor opt a b = Inr s"
         "v' = v\<lparr>objs := (objs v)(self := (objs v self)\<lparr>scheduler := Some s\<rparr>)\<rparr>"
      by blast
    from h(3) have "scheduler (objs v' self) = Some s" by simp
    with h(1,2) show ?thesis by blast
  qed
qed

text \<open>
  The witness: a call without optimizer, a call with optimizer 7, a call with optimizer
  8 and another call without optimizer. The second and third return, and the field
  ends up holding the schedule over optimizer 8.
\<close>

theorem scheduler_set_iff_fit_succeeded_witness:
  "fst (fits check_requirements new_schedule 0
          [(Map.empty, PyNone), ([''optimizer'' \<mapsto> Optimizer 7], PyNone),
           ([''optimizer'' \<mapsto> Optimizer 8], PyNone), (Map.empty, PyNone)]
          (init (PyInt 5) (PyFloat 2) PyNone 0 blank))
     = [Inl MissingDependencyError, Inr 0, Inr 0, Inl MissingDependencyError] \<and>
   scheduler (objs (snd (fits check_requirements new_schedule 0
          [(Map.empty, PyNone), ([''optimizer'' \<mapsto> Optimizer 7], PyNone),
           ([''optimizer'' \<mapsto> Optimizer 8], PyNone), (Map.empty, PyNone)]
          (init (PyInt 5) (PyFloat 2) PyNone 0 blank))) 0)
     = Some \<lparr>sched_optimizer = Optimizer 8, sched_T_0 = 5, sched_T_mult = 2\<rparr> \<and>
   (scheduler (objs (snd (fits check_requirements new_schedule 0
          [(Map.empty, PyNone), ([''optimizer'' \<mapsto> Optimizer 7], PyNone),
           ([''optimizer'' \<mapsto> Optimizer 8], PyNone), (Map.empty, PyNone)]
          (init (PyInt 5) (PyFloat 2) PyNone 0 blank))) 0) \<noteq> None)
     = (\<exists>r\<in>set [Inl MissingDependencyError, Inr (0::nat), Inr 0,
                    Inl MissingDependencyError].
          \<not> isl r) \<and>
   scheduler (objs (init (PyInt 5) (PyFloat 2) PyNone 0 blank) 0) = None"
proof -
  let ?w = "init (PyInt 5) (PyFloat 2) PyNone 0 blank"
  let ?calls = "[(Map.empty, PyNone), ([''optimizer'' \<mapsto> Optimizer 7], PyNone),
           ([''optimizer'' \<mapsto> Optimizer 8], PyNone), (Map.empty, PyNone)]"
  let ?outs = "[Inl MissingDependencyError, Inr (0::nat), Inr 0, Inl MissingDependencyError]"
  let ?run = "fits check_requirements new_schedule 0 ?calls ?w"
  have outs: "fst ?run = ?outs"
    by (simp add: fit_def check_requirements_def has_usable_optimizer_def new_schedule_def
        init_def blank_def)
  have sch: "scheduler (objs (snd ?run) 0)
      = Some \<lparr>sched_optimizer = Optimizer 8, sched_T_0 = 5, sched_T_mult = 2\<rparr>"
    by (simp add: fit_def check_requirements_def has_usable_optimizer_def new_schedule_def
        init_def blank_def)
  have run: "fits check_requirements new_schedule 0 ?calls
      (init (PyInt 5) (PyFloat 2) PyNone 0 blank) = (?outs, snd ?run)"
    using outs by (simp add: prod_eq_iff)
  note inst = scheduler_set_iff_fit_succeeded
    [where check = check_requirements and ctor = new_schedule and self = 0
       and calls = ?calls and tz = "PyInt 5" and tm = "PyFloat 2" and rs = PyNone
       and w = blank and outs = ?outs and w' = "snd ?run"]
  have fresh: "scheduler (objs ?w 0) = None"
    using inst by (rule conjunct1)
  have iff: "(scheduler (objs (snd ?run) 0) \<noteq> None) = (\<exists>r\<in>set ?outs. \<not> isl r)"
    using inst [THEN conjunct2, THEN conjunct1, THEN mp, OF run] by simp
  from outs sch iff fresh show ?thesis by blast
qed

section \<open>Fitting twice\<close>



section \<open>What fit leaves alone\<close>

text \<open>
  C9: whatever its outcome, \<open>fit\<close> leaves the fields \<open>T_0\<close>, \<open>T_mult\<close> and \<open>random_state\<close>
  of the instance as they were, leaves every other object of the store as it was, and
  adds no file operation to the log.
\<close>

theorem fit_changes_only_scheduler:
  assumes "fit check ctor self X y w = (r, w')"
  shows "T_0 (objs w' self) = T_0 (objs w self) \<and>
         T_mult (objs w' self) = T_mult (objs w self) \<and>
         random_state (objs w' self) = random_state (objs w self) \<and>
         (\<forall>p. p \<noteq> self \<longrightarrow> objs w' p = objs w p) \<and>
         io_log w' = io_log w"
  using assms fit_result_cases [of check ctor self X y w] by auto

theorem fit_changes_only_scheduler_witness:
  "fst (fit check_requirements new_schedule 0 [''optimizer'' \<mapsto> Optimizer 7] PyNone
          (init (PyInt 5) (PyFloat 2) (RandomState 4) 0 blank)) = Inr 0 \<and>
   T_0 (objs (snd (fit check_requirements new_schedule 0
          [''optimizer'' \<mapsto> Optimizer 7] PyNone
          (init (PyInt 5) (PyFloat 2) (RandomState 4) 0 blank))) 0) = PyInt 5 \<and>
   T_mult (objs (snd (fit check_requirements new_schedule 0
          [''optimizer'' \<mapsto> Optimizer 7] PyNone
          (init (PyInt 5) (PyFloat 2) (RandomState 4) 0 blank))) 0) = PyFloat 2 \<and>
   random_state (objs (snd (fit check_requirements new_schedule 0
          [''optimizer'' \<mapsto> Optimizer 7] PyNone
          (init (PyInt 5) (PyFloat 2) (RandomState 4) 0 blank))) 0) = RandomState 4 \<and>
   objs (snd (fit check_requirements new_schedule 0
          [''optimizer'' \<mapsto> Optimizer 7] PyNone
          (init (PyInt 5) (PyFloat 2) (RandomState 4) 0 blank))) 1 = objs blank 1 \<and>
   io_log (snd (fit check_requirements new_schedule 0
          [''optimizer'' \<mapsto> Optimizer 7] PyNone
          (init (PyInt 5) (PyFloat 2) (RandomState 4) 0 blank))) = []"
proof -
  let ?w = "init (PyInt 5) (PyFloat 2) (RandomState 4) 0 blank"
  let ?f = "fit check_requirements new_schedule 0 [''optimizer'' \<mapsto> Optimizer 7] PyNone ?w"
  have res: "fst ?f = Inr 0"
    by (simp add: fit_def check_requirements_def has_usable_optimizer_def new_schedule_def
        init_def blank_def)
  have run: "?f = (Inr 0, snd ?f)" using res by (simp add: prod_eq_iff)
  from fit_changes_only_scheduler [OF run]
  have "T_0 (objs (snd ?f) 0) = T_0 (objs ?w 0)"
    and "T_mult (objs (snd ?f) 0) = T_mult (objs ?w 0)"
    and "random_state (objs (snd ?f) 0) = random_state (objs ?w 0)"
    and "objs (snd ?f) 1 = objs ?w 1"
    and "io_log (snd ?f) = io_log ?w"
    by simp_all
  then have "T_0 (objs (snd ?f) 0) = PyInt 5"
    and "T_mult (objs (snd ?f) 0) = PyFloat 2"
    and "random_state (objs (snd ?f) 0) = RandomState 4"
    and "objs (snd ?f) 1 = objs blank 1"
    and "io_log (snd ?f) = []"
    by (simp_all add: init_def blank_def)
  with res show ?thesis by blast
qed

section \<open>Truncation of the growth factor\<close>

lemma py_int_between_one_and_two: "1 \<le> v \<Longrightarrow> v < 2 \<Longrightarrow> py_int (PyFloat v) = Inr 1"
  by (simp add: floor_eq_iff)

text \<open>
  C10: for a float \<open>v\<close> with \<open>1.0 \<le> v < 2.0\<close>, \<open>int(v)\<close> is 1. An instance constructed with
  \<open>T_mult = v\<close> and one constructed with \<open>T_mult = 1.0\<close>, on the same store and with the
  same other arguments, behave alike under \<open>fit\<close>: the same outcome and the same
  \<open>scheduler\<close>; and when \<open>fit\<close> returns, the schedule is the one the constructor built
  with growth factor 1.
\<close>

theorem T_mult_below_two_truncates_to_one:
  assumes "1 \<le> v" and "v < 2"
  shows "py_int (PyFloat v) = Inr 1 \<and>
         fst (fit check ctor self X y (init tz (PyFloat v) rs self w)) =
           fst (fit check ctor self X y (init tz (PyFloat 1) rs self w)) \<and>
         scheduler (objs (snd (fit check ctor self X y (init tz (PyFloat v) rs self w))) self) =
           scheduler (objs (snd (fit check ctor self X y (init tz (PyFloat 1) rs self w))) self) \<and>
         (case fit check ctor self X y (init tz (PyFloat v) rs self w) of
            (Inl e, w') \<Rightarrow> True
          | (Inr r, w') \<Rightarrow>
              (\<exists>opt a s. X ''optimizer'' = Some opt \<and> py_int tz = Inr a \<and>
                 ctor opt a 1 = Inr s \<and> scheduler (objs w' self) = Some s))"
proof -
  have one: "py_int (PyFloat v) = Inr 1"
    using assms by (rule py_int_between_one_and_two)
  have one': "py_int (PyFloat 1) = Inr 1" by simp
  show ?thesis
    unfolding fit_def init_def using one one'
    by (auto split: sum.splits option.splits)
qed

theorem T_mult_below_two_truncates_to_one_witness:
  "(1::real) \<le> 3 / 2 \<and> (3::real) / 2 < 2 \<and>
   py_int (PyFloat (3 / 2)) = Inr 1 \<and>
   fst (fit check_requirements new_schedule 0 [''optimizer'' \<mapsto> Optimizer 7] PyNone
          (init (PyInt 5) (PyFloat (3 / 2)) PyNone 0 blank)) = Inr 0 \<and>
   scheduler (objs (snd (fit check_requirements new_schedule 0
          [''optimizer'' \<mapsto> Optimizer 7] PyNone
          (init (PyInt 5) (PyFloat (3 / 2)) PyNone 0 blank))) 0)
     = Some \<lparr>sched_optimizer = Optimizer 7, sched_T_0 = 5, sched_T_mult = 1\<rparr> \<and>
   scheduler (objs (snd (fit check_requirements new_schedule 0
          [''optimizer'' \<mapsto> Optimizer 7] PyNone
          (init (PyInt 5) (PyFloat (3 / 2)) PyNone 0 blank))) 0)
     = scheduler (objs (snd (fit check_requirements new_schedule 0
          [''optimizer'' \<mapsto> Optimizer 7] PyNone
          (init (PyInt 5) (PyFloat 1) PyNone 0 blank))) 0)"
proof -
  let ?X = "[''optimizer'' \<mapsto> Optimizer 7]"
  let ?fv = "fit check_requirements new_schedule 0 ?X PyNone
      (init (PyInt 5) (PyFloat (3 / 2)) PyNone 0 blank)"
  let ?f1 = "fit check_requirements new_schedule 0 ?X PyNone
      (init (PyInt 5) (PyFloat 1) PyNone 0 blank)"
  have lo: "(1::real) \<le> 3 / 2" by simp
  have hi: "(3::real) / 2 < 2" by simp
  note inst = T_mult_below_two_truncates_to_one
    [OF lo hi, where check = check_requirements and ctor = new_schedule and self = 0
       and X = ?X and y = PyNone and tz = "PyInt 5" and rs = PyNone and w = blank]
  have trunc: "py_int (PyFloat (3 / 2)) = Inr 1"
    using inst by (rule conjunct1)
  have same: "scheduler (objs (snd ?fv) 0) = scheduler (objs (snd ?f1) 0)"
    using inst [THEN conjunct2, THEN conjunct2, THEN conjunct1] .
  have res1: "fst ?f1 = Inr 0"
    by (simp add: fit_def check_requirements_def has_usable_optimizer_def new_schedule_def
        init_def blank_def)
  have res: "fst ?fv = Inr 0"
    using inst [THEN conjunct2, THEN conjunct1] res1 by simp
  have sch1: "scheduler (objs (snd ?f1) 0)
      = Some \<lparr>sched_optimizer = Optimizer 7, sched_T_0 = 5, sched_T_mult = 1\<rparr>"
    by (simp add: fit_def check_requirements_def has_usable_optimizer_def new_schedule_def
        init_def blank_def)
  have sch: "scheduler (objs (snd ?fv) 0)
      = Some \<lparr>sched_optimizer = Optimizer 7, sched_T_0 = 5, sched_T_mult = 1\<rparr>"
    using same sch1 by simp
  from lo hi trunc res sch same show ?thesis by blast
qed

section \<open>The metadata and the search space\<close>

text \<open>
  C6: for every argument and in every store, \<open>get_properties\<close> returns, without raising,
  the mapping of \<open>shortname\<close> to "CosineAnnealingWarmRestarts", \<open>name\<close> to
  "Cosine Annealing WarmRestarts" and \<open>cyclic\<close> to true, and leaves the store as it was.
\<close>

theorem get_properties_fixed:
  "get_properties dataset_properties w =
     (Inr [''shortname'' \<mapsto> PyStr ''CosineAnnealingWarmRestarts'',
           ''name'' \<mapsto> PyStr ''Cosine Annealing WarmRestarts'',
           ''cyclic'' \<mapsto> PyBool True], w)"
  by (simp add: get_properties_def)

text \<open>
  C5: with both range arguments left at their defaults,
  \<open>get_hyperparameter_search_space\<close> returns a space of exactly two hyperparameters: the
  integer one named \<open>T_0\<close> with bounds 1 and 20 and default 1, and the real one named
  \<open>T_mult\<close> with bounds 1.0 and 2.0 and default 1.0.
\<close>

theorem default_search_space:
  "get_hyperparameter_search_space dataset_properties None None =
     Inr [UniformInteger ''T_0'' 1 20 1, UniformFloat ''T_mult'' 1 2 1]"
  by (simp add: get_hyperparameter_search_space_def default_T_0_def default_T_mult_def
      UniformIntegerHyperparameter_def UniformFloatHyperparameter_def
      ConfigurationSpace_def add_hyperparameters_def)

text \<open>
  C8: with the constructors of the spec, \<open>get_hyperparameter_search_space\<close> raises
  \<open>InvalidRangeError\<close> whenever, for \<open>T_0\<close> or for \<open>T_mult\<close>, the lower bound exceeds the
  upper bound or the default lies outside the bounds; when both defaults lie within
  their bounds it raises nothing and returns the two hyperparameters as given.
\<close>

theorem search_space_range_errors:
  "(hi0 < lo0 \<or> d0 < lo0 \<or> hi0 < d0 \<or> him < lom \<or> dm < lom \<or> him < dm \<longrightarrow>
      get_hyperparameter_search_space dp (Some ((lo0, hi0), d0)) (Some ((lom, him), dm)) =
        Inl InvalidRangeError) \<and>
   (lo0 \<le> d0 \<and> d0 \<le> hi0 \<and> lom \<le> dm \<and> dm \<le> him \<longrightarrow>
      get_hyperparameter_search_space dp (Some ((lo0, hi0), d0)) (Some ((lom, him), dm)) =
        Inr [UniformInteger ''T_0'' lo0 hi0 d0, UniformFloat ''T_mult'' lom him dm])"
  by (auto simp add: get_hyperparameter_search_space_def Let_def
      UniformIntegerHyperparameter_def UniformFloatHyperparameter_def
      ConfigurationSpace_def add_hyperparameters_def split: sum.splits if_splits)

theorem search_space_range_errors_witness:
  "get_hyperparameter_search_space None (Some ((20, 1), 1)) (Some ((1, 2), 1)) =
     Inl InvalidRangeError \<and>
   get_hyperparameter_search_space None (Some ((1, 20), 1)) (Some ((1, 2), 3)) =
     Inl InvalidRangeError \<and>
   get_hyperparameter_search_space None (Some ((2, 50), 10)) (Some ((1, 4), 3 / 2)) =
     Inr [UniformInteger ''T_0'' 2 50 10, UniformFloat ''T_mult'' 1 4 (3 / 2)]"
proof -
  have a: "get_hyperparameter_search_space None (Some ((20, 1), 1)) (Some ((1, 2), 1)) =
     Inl InvalidRangeError"
    using search_space_range_errors [of 1 20 1 2 1 1 None] by simp
  have b: "get_hyperparameter_search_space None (Some ((1, 20), 1)) (Some ((1, 2), 3)) =
     Inl InvalidRangeError"
    using search_space_range_errors [of 20 1 1 2 1 3 None] by simp
  have c: "get_hyperparameter_search_space None (Some ((2, 50), 10)) (Some ((1, 4), 3 / 2)) =
     Inr [UniformInteger ''T_0'' 2 50 10, UniformFloat ''T_mult'' 1 4 (3 / 2)]"
    using search_space_range_errors [of 50 2 10 4 1 "3 / 2" None] by simp
  from a b c show ?thesis by blast
qed

end
